theory Spec2Isabelle
  imports
    Main
    "HOL-Library.Char_ord"
    "HOL-Library.List_Lexorder"
    "HOL-Library.Multiset"
    "HOL-Library.Sublist"
begin

section \<open>Python values used by the integration\<close>

text \<open>
  The integration (custom component \<^verbatim>\<open>mhd_ba\<close>) is Python. Integers are unbounded
  (\<^typ>\<open>int\<close>), strings are \<^typ>\<open>string\<close>, a dictionary key that may be missing is an
  \<^typ>\<open>'a option\<close> field (\<open>None\<close> is what \<^verbatim>\<open>dict.get(key)\<close> returns for a missing key),
  and an exception is a value of \<open>error\<close> on the left of a sum.
\<close>

datatype error = ClientError | UpdateFailed | TypeError | AttributeError | KeyError | IndexError



definition truthy_list :: "'a list option \<Rightarrow> bool" where
  "truthy_list v = (case v of None \<Rightarrow> False | Some xs \<Rightarrow> xs \<noteq> [])"

text \<open>\<^verbatim>\<open>str(n)\<close> and the \<^verbatim>\<open>{n}\<close> of an f-string, for an integer: decimal digits, a leading minus.\<close>

definition digit_char :: "nat \<Rightarrow> char" where
  "digit_char d = ''0123456789'' ! (d mod 10)"

function str_nat :: "nat \<Rightarrow> string" where
  "str_nat n = (if n < 10 then [digit_char n] else str_nat (n div 10) @ [digit_char (n mod 10)])"
  by pat_completeness auto
termination
  by (relation "measure id") auto

declare str_nat.simps [simp del]



text \<open>\<^verbatim>\<open>sep.join(parts)\<close>.\<close>

fun str_join :: "string \<Rightarrow> string list \<Rightarrow> string" where
  "str_join sep [] = []"
| "str_join sep [p] = p"
| "str_join sep (p # q # ps) = p @ sep @ str_join sep (q # ps)"

text \<open>
  \<^verbatim>\<open>s.replace(old, new)\<close> for a non-empty \<^verbatim>\<open>old\<close>: every non-overlapping occurrence, left to
  right. (The source only calls it with a one-character \<^verbatim>\<open>old\<close>; an empty \<^verbatim>\<open>old\<close>, which
  Python treats specially, leaves the string as it is here.)
\<close>

function str_replace :: "string \<Rightarrow> string \<Rightarrow> string \<Rightarrow> string" where
  "str_replace old new [] = []"
| "str_replace old new (c # cs) =
     (if old \<noteq> [] \<and> prefix old (c # cs)
      then new @ str_replace old new (drop (length old) (c # cs))
      else c # str_replace old new cs)"
  by pat_completeness auto
termination
  by (relation "measure (\<lambda>(old, new, s). length s)") auto


section \<open>const.py\<close>

text \<open>
  \<^verbatim>\<open>sensor.py\<close> and \<^verbatim>\<open>helpers.py\<close> import \<^verbatim>\<open>DIRECTION_ALL\<close> and \<^verbatim>\<open>DIRECTION_HERE\<close> from
  \<^verbatim>\<open>const.py\<close>, which does not declare them in the revision at hand. They are string
  constants whose values are left open here: every function that reads them takes the
  constants as a parameter.
\<close>

record constants =
  DIRECTION_ALL :: string
  DIRECTION_HERE :: string

definition DEFAULT_FILTER :: string where
  "DEFAULT_FILTER = ''urban''"

definition DEFAULT_CITY_ID :: string where
  "DEFAULT_CITY_ID = ''-1''"

section \<open>The upstream records\<close>

text \<open>
  One element of the \<^verbatim>\<open>departures\<close> list of the API's JSON, with the keys the code reads:
  \<^verbatim>\<open>{timeTableTrip: {timeTableLine: {line}, destinationStopName, ezTripDirection},
    plannedDepartureTimestamp, delayMinutes, platformNumber}\<close>.
  A field that is \<open>None\<close> is a key the dictionary does not have; a key that is there
  holds a value of the type the code expects. The platform is only passed on.
\<close>

record timeTableLine_dict =
  line :: "string option"

record timeTableTrip_dict =
  timeTableLine :: "timeTableLine_dict option"
  destinationStopName :: "string option"
  ezTripDirection :: "string option"

record departure =
  timeTableTrip :: "timeTableTrip_dict option"
  plannedDepartureTimestamp :: "int option"
  delayMinutes :: "int option"
  platformNumber :: "string option"






section \<open>sensor.py: the departures sensor\<close>







section \<open>coordinator.py: the coordinator's state\<close>

text \<open>The dictionary \<^verbatim>\<open>_async_update_data\<close> returns, which the base class publishes as
  \<^verbatim>\<open>coordinator.data\<close>. The sensor asks whether the key \<^verbatim>\<open>departures\<close> is there, so that
  field is optional.\<close>

record coordinator_data =
  data_departures :: "departure list option"
  data_stop_name :: "string option"
  data_stopping_lines :: "string list"
  data_last_update :: string

text \<open>
  The coordinator: \<^verbatim>\<open>stop_id\<close>, \<^verbatim>\<open>stop_name\<close>, \<^verbatim>\<open>stopping_lines\<close> and \<^verbatim>\<open>last_update\<close> are
  set by \<^verbatim>\<open>MhdBaDataUpdateCoordinator.__init__\<close>; \<^verbatim>\<open>data\<close> and \<^verbatim>\<open>last_update_success\<close>
  are the base class's (\<^verbatim>\<open>data\<close> is \<^verbatim>\<open>None\<close> until a refresh succeeds). \<^verbatim>\<open>direction\<close> is read
  by the sensor and passed to the constructor by \<^verbatim>\<open>__init__.py\<close>, but the revision of
  \<^verbatim>\<open>coordinator.py\<close> at hand does not declare it: it is a field here, whatever its value.
\<close>

record coordinator =
  stop_id :: string
  stop_name :: "string option"
  stopping_lines :: "string list"
  last_update :: string
  direction :: string
  data :: "coordinator_data option"
  last_update_success :: bool

section \<open>sensor.py: the headline and the attributes\<close>


text \<open>
  \<^verbatim>\<open>dt_util.as_local(datetime.fromtimestamp(t, tz=dt_util.UTC)).strftime("%H:%M")\<close>: the
  wall-clock time of the instant \<open>t\<close> in the configured time zone, whose offset from UTC
  (in seconds, at a given instant) is the parameter \<open>tz\<close>.
\<close>

text \<open>Zeros in front of a number up to a width, as \<^verbatim>\<open>strftime\<close> pads its fields.\<close>

definition zfill :: "nat \<Rightarrow> string \<Rightarrow> string" where
  "zfill w s = replicate (w - length s) CHR ''0'' @ s"






section \<open>helpers.py and the config flow: the unique id\<close>

text \<open>
  \<^verbatim>\<open>helpers.generate_unique_id(stop_id, filter_lines, direction)\<close>. \<^verbatim>\<open>sorted\<close> on strings
  is the lexicographic order of their characters, which is the order of \<^typ>\<open>string\<close>
  here.
\<close>

definition generate_unique_id :: "constants \<Rightarrow> string \<Rightarrow> string list \<Rightarrow> string \<Rightarrow> string" where
  "generate_unique_id K sid lines dir =
     (let unique_id_parts = [sid];
          unique_id_parts =
            (if lines \<noteq> [] then unique_id_parts @ [str_join ''-'' (sort lines)]
             else unique_id_parts);
          unique_id_parts =
            (if dir \<noteq> DIRECTION_ALL K then unique_id_parts @ [dir] else unique_id_parts)
      in str_join ''_'' unique_id_parts)"

text \<open>\<^verbatim>\<open>config_flow.generate_unique_id(stop_id, filter_lines)\<close>, the one the config flow
  calls: it has no direction.\<close>

definition config_flow_generate_unique_id :: "string \<Rightarrow> string list \<Rightarrow> string" where
  "config_flow_generate_unique_id sid lines =
     (if lines = [] then sid else sid @ ''_'' @ str_join ''-'' (sort lines))"

section \<open>coordinator.py: the requests\<close>

text \<open>
  What a request gives back: \<^verbatim>\<open>aiohttp.ClientError\<close> raised by the session, or a response
  with its HTTP status and the JSON of its body.
\<close>

datatype 'a response = Raise_ClientError | Response nat 'a

text \<open>The stop-info envelope \<^verbatim>\<open>{status, stops: [{stopID, stopName, ezLines}]}\<close> and the
  departures envelope \<^verbatim>\<open>{departures: [...]}\<close>.\<close>

record stop_dict =
  stopID :: "string option"
  stopName :: "string option"
  ezLines :: "string list option"

record stop_info_json =
  status :: "string option"
  stops :: "stop_dict list option"

record departures_json =
  departures :: "departure list option"

text \<open>The body of the \<^verbatim>\<open>try\<close> of \<^verbatim>\<open>_fetch_stop_info\<close>, then the function with its
  \<^verbatim>\<open>except aiohttp.ClientError\<close>, which logs and returns.\<close>

definition fetch_stop_info_try :: "coordinator \<Rightarrow> stop_info_json response \<Rightarrow> error + coordinator" where
  "fetch_stop_info_try c r =
     (case r of
        Raise_ClientError \<Rightarrow> Inl ClientError
      | Response st response_json \<Rightarrow>
         if st \<noteq> 200 then Inr c
         else if status response_json \<noteq> Some ''ok'' \<or> \<not> truthy_list (stops response_json)
         then Inr c
         else
           (case stops response_json of
              None \<Rightarrow> Inl KeyError
            | Some [] \<Rightarrow> Inl IndexError
            | Some (stop_data # _) \<Rightarrow>
               Inr (c\<lparr>stop_name := stopName stop_data,
                      stopping_lines :=
                        (case ezLines stop_data of None \<Rightarrow> [] | Some ls \<Rightarrow> ls)\<rparr>)))"

definition fetch_stop_info :: "coordinator \<Rightarrow> stop_info_json response \<Rightarrow> error + coordinator" where
  "fetch_stop_info c r =
     (case fetch_stop_info_try c r of
        Inl err \<Rightarrow> if err = ClientError then Inr c else Inl err
      | Inr c' \<Rightarrow> Inr c')"

text \<open>
  \<^verbatim>\<open>now.strftime(format)\<close> for the directives the coordinator uses: \<^verbatim>\<open>%Y\<close> is the year
  padded with zeros to four digits, \<^verbatim>\<open>%m\<close>, \<^verbatim>\<open>%d\<close>, \<^verbatim>\<open>%H\<close>, \<^verbatim>\<open>%M\<close> and \<^verbatim>\<open>%S\<close> are padded to
  two. \<^verbatim>\<open>utcoffset\<close> is in seconds east of UTC; \<^verbatim>\<open>%z\<close> prints it as sign, hours and
  minutes (and seconds, when there are any), with no colon.
\<close>

record datetime =
  year :: nat
  month :: nat
  day :: nat
  hour :: nat
  minute :: nat
  second :: nat
  utcoffset :: int

definition strftime_z :: "datetime \<Rightarrow> string" where
  "strftime_z t =
     (let a = nat \<bar>utcoffset t\<bar>
      in (if utcoffset t < 0 then ''-'' else ''+'') @
         zfill 2 (str_nat (a div 3600)) @ zfill 2 (str_nat ((a mod 3600) div 60)) @
         (if a mod 60 \<noteq> 0 then zfill 2 (str_nat (a mod 60)) else []))"

definition strftime_directive :: "datetime \<Rightarrow> char \<Rightarrow> string" where
  "strftime_directive t c =
     (if c = CHR ''Y'' then zfill 4 (str_nat (year t))
      else if c = CHR ''m'' then zfill 2 (str_nat (month t))
      else if c = CHR ''d'' then zfill 2 (str_nat (day t))
      else if c = CHR ''H'' then zfill 2 (str_nat (hour t))
      else if c = CHR ''M'' then zfill 2 (str_nat (minute t))
      else if c = CHR ''S'' then zfill 2 (str_nat (second t))
      else if c = CHR ''z'' then strftime_z t
      else if c = CHR ''%'' then ''%''
      else [CHR ''%'', c])"

fun strftime :: "datetime \<Rightarrow> string \<Rightarrow> string" where
  "strftime t [] = []"
| "strftime t [a] = [a]"
| "strftime t (a # b # fmt) =
     (if a = CHR ''%'' then strftime_directive t b @ strftime t fmt
      else a # strftime t (b # fmt))"

text \<open>The first lines of \<^verbatim>\<open>_fetch_departures\<close>: the \<^verbatim>\<open>date\<close> field and the form-encoded
  body of the POST.\<close>

definition formatted_date :: "datetime \<Rightarrow> string" where
  "formatted_date now =
     str_replace '':'' ''%3A'' (strftime now ''%Y-%m-%d+%H:%M'') @
     str_replace ''+'' ''%2B'' (str_replace '':'' [] (strftime now ''%z''))"

definition url_encoded_data :: "coordinator \<Rightarrow> datetime \<Rightarrow> string" where
  "url_encoded_data c now =
     str_join ''&''
       [''stopID='' @ stop_id c,
        ''date='' @ formatted_date now,
        ''filter='' @ DEFAULT_FILTER,
        ''cityID='' @ DEFAULT_CITY_ID]"

text \<open>
  The rest of \<^verbatim>\<open>_fetch_departures\<close>, on what the POST gives back. \<^verbatim>\<open>return {[]}\<close> builds a
  set whose element is a list: lists are not hashable, and Python raises \<^verbatim>\<open>TypeError\<close>
  there. \<open>now\<close> is the clock when the response has been read.
\<close>

definition fetch_departures ::
  "coordinator \<Rightarrow> datetime \<Rightarrow> departures_json response \<Rightarrow> error + departure list \<times> coordinator" where
  "fetch_departures c now r =
     (case r of
        Raise_ClientError \<Rightarrow> Inl ClientError
      | Response st response_json \<Rightarrow>
         if st \<noteq> 200 then Inl UpdateFailed
         else
           (case departures response_json of
              None \<Rightarrow> Inl TypeError
            | Some deps \<Rightarrow> Inr (deps, c\<lparr>last_update := strftime now ''%d.%m.%Y %H:%M:%S''\<rparr>)))"

text \<open>
  \<^verbatim>\<open>_async_update_data\<close>: the stop info once, then the departures; a \<^verbatim>\<open>ClientError\<close>
  leaves as \<^verbatim>\<open>UpdateFailed\<close>, any other exception as it is. The coordinator's own fields
  may have changed even when the update fails, so the new coordinator is returned beside
  the result.
\<close>

definition async_update_data ::
  "coordinator \<Rightarrow> datetime \<Rightarrow> stop_info_json response \<Rightarrow> departures_json response
     \<Rightarrow> (error + coordinator_data) \<times> coordinator" where
  "async_update_data c now r_stop r_dep =
     (case (if stop_name c = None then fetch_stop_info c r_stop else Inr c) of
        Inl err \<Rightarrow> (Inl (if err = ClientError then UpdateFailed else err), c)
      | Inr c1 \<Rightarrow>
         (case fetch_departures c1 now r_dep of
            Inl err \<Rightarrow> (Inl (if err = ClientError then UpdateFailed else err), c1)
          | Inr (deps, c2) \<Rightarrow>
             (Inr \<lparr>data_departures = Some deps,
                   data_stop_name = stop_name c2,
                   data_stopping_lines = stopping_lines c2,
                   data_last_update = last_update c2\<rparr>,
              c2)))"

text \<open>
  Modelled from the spec: the refresh cycle of the base class \<^verbatim>\<open>DataUpdateCoordinator\<close>
  (Home Assistant's, not a file of this repository), after section 4.5: a failed update
  is recorded and the published data stay; a successful one publishes the new data.
\<close>

definition async_refresh ::
  "coordinator \<Rightarrow> datetime \<Rightarrow> stop_info_json response \<Rightarrow> departures_json response
     \<Rightarrow> coordinator" where
  "async_refresh c now r_stop r_dep =
     (case async_update_data c now r_stop r_dep of
        (Inl err, c') \<Rightarrow> c'\<lparr>last_update_success := False\<rparr>
      | (Inr new_data, c') \<Rightarrow> c'\<lparr>data := Some new_data, last_update_success := True\<rparr>)"

section \<open>Concrete inputs\<close>

text \<open>Values the closed theorems below are evaluated at.\<close>

definition K_example :: constants where
  "K_example = \<lparr>DIRECTION_ALL = ''all'', DIRECTION_HERE = ''here''\<rparr>"

definition now_example :: datetime where
  "now_example =
     \<lparr>year = 2026, month = 10, day = 12, hour = 14, minute = 30, second = 5, utcoffset = 7200\<rparr>"

definition now_west :: datetime where
  "now_west =
     \<lparr>year = 2026, month = 1, day = 5, hour = 9, minute = 5, second = 0, utcoffset = - 16200\<rparr>"

definition departure_example ::
  "string \<Rightarrow> string option \<Rightarrow> int option \<Rightarrow> int option \<Rightarrow> departure" where
  "departure_example l tag planned late =
     \<lparr>timeTableTrip =
        Some \<lparr>timeTableLine = Some \<lparr>line = Some l\<rparr>,
              destinationStopName = Some ''Centrum'',
              ezTripDirection = tag\<rparr>,
      plannedDepartureTimestamp = planned,
      delayMinutes = late,
      platformNumber = None\<rparr>"


definition coordinator_example :: "departure list \<Rightarrow> coordinator" where
  "coordinator_example deps =
     \<lparr>stop_id = ''123'', stop_name = Some ''Hlavna'', stopping_lines = [''21''],
      last_update = ''12.10.2026 14:30:05'', direction = ''all'',
      data = Some \<lparr>data_departures = Some deps, data_stop_name = Some ''Hlavna'',
                   data_stopping_lines = [''21''],
                   data_last_update = ''12.10.2026 14:30:05''\<rparr>,
      last_update_success = True\<rparr>"




definition three_departures :: "departure list" where
  "three_departures =
     [departure_example ''21'' None (Some 1300) (Some 2),
      departure_example ''22'' None (Some 60) (Some (- 1)),
      departure_example ''23'' None None None]"


definition stop_info_own :: stop_info_json where
  "stop_info_own =
     \<lparr>status = Some ''ok'',
      stops = Some [\<lparr>stopID = Some ''123'', stopName = Some ''Hlavna'',
                    ezLines = Some [''21'', ''22'']\<rparr>]\<rparr>"


section \<open>Strings: digits and replacement\<close>

lemma digit_char_in: "digit_char d \<in> set ''0123456789''"
  unfolding digit_char_def by (rule nth_mem) simp

lemma set_str_nat: "set (str_nat n) \<subseteq> set ''0123456789''"
proof (induction n rule: str_nat.induct)
  case (1 n)
  show ?case
  proof (cases "n < 10")
    case True
    then show ?thesis
      using digit_char_in [of n] by (subst str_nat.simps) simp
  next
    case False
    then show ?thesis
      using 1 digit_char_in [of "n mod 10"] by (subst str_nat.simps) simp
  qed
qed

lemma set_zfill: "set (zfill w s) \<subseteq> insert CHR ''0'' (set s)"
  by (auto simp: zfill_def)

lemma set_zfill_str_nat: "set (zfill w (str_nat n)) \<subseteq> set ''0123456789''"
  using set_zfill [of w "str_nat n"] set_str_nat [of n] by auto

lemma colon_zfill: "CHR '':'' \<notin> set (zfill w (str_nat n))"
  using set_zfill_str_nat [of w n] by auto

lemma plus_zfill: "CHR ''+'' \<notin> set (zfill w (str_nat n))"
  using set_zfill_str_nat [of w n] by auto

lemma str_replace_char:
  "str_replace [a] new s = concat (map (\<lambda>c. if c = a then new else [c]) s)"
  by (induction s) auto

lemma str_replace_Cons:
  "str_replace [a] new (c # s) = (if c = a then new else [c]) @ str_replace [a] new s"
  by simp

lemma str_replace_append:
  "str_replace [a] new (xs @ ys) = str_replace [a] new xs @ str_replace [a] new ys"
  by (simp add: str_replace_char)

lemma str_replace_absent: "a \<notin> set s \<Longrightarrow> str_replace [a] new s = s"
  by (induction s) auto

section \<open>The date field of the departures request\<close>

lemma strftime_date:
  "strftime now ''%Y-%m-%d+%H:%M'' =
     zfill 4 (str_nat (year now)) @ ''-'' @ zfill 2 (str_nat (month now)) @ ''-'' @
     zfill 2 (str_nat (day now)) @ ''+'' @ zfill 2 (str_nat (hour now)) @ '':'' @
     zfill 2 (str_nat (minute now))"
  by (simp add: strftime_directive_def)

lemma strftime_offset: "strftime now ''%z'' = strftime_z now"
  by (simp add: strftime_directive_def)

lemma replace_date:
  "str_replace '':'' ''%3A'' (strftime now ''%Y-%m-%d+%H:%M'') =
     zfill 4 (str_nat (year now)) @ ''-'' @ zfill 2 (str_nat (month now)) @ ''-'' @
     zfill 2 (str_nat (day now)) @ ''+'' @ zfill 2 (str_nat (hour now)) @ ''%3A'' @
     zfill 2 (str_nat (minute now))"
  unfolding strftime_date
  by (simp add: str_replace_Cons str_replace_append str_replace_absent colon_zfill
        del: str_replace.simps)

lemma replace_offset:
  "str_replace ''+'' ''%2B'' (str_replace '':'' [] (strftime_z now)) =
     (if utcoffset now < 0 then ''-'' else ''%2B'') @
     zfill 2 (str_nat (nat \<bar>utcoffset now\<bar> div 3600)) @
     zfill 2 (str_nat (nat \<bar>utcoffset now\<bar> mod 3600 div 60)) @
     (if nat \<bar>utcoffset now\<bar> mod 60 \<noteq> 0
      then zfill 2 (str_nat (nat \<bar>utcoffset now\<bar> mod 60)) else [])"
  unfolding strftime_z_def Let_def
  by (simp add: str_replace_Cons str_replace_append str_replace_absent colon_zfill plus_zfill
        del: str_replace.simps)

lemma formatted_date_eq:
  "formatted_date now =
     zfill 4 (str_nat (year now)) @ ''-'' @ zfill 2 (str_nat (month now)) @ ''-'' @
     zfill 2 (str_nat (day now)) @ ''+'' @ zfill 2 (str_nat (hour now)) @ ''%3A'' @
     zfill 2 (str_nat (minute now)) @
     (if utcoffset now < 0 then ''-'' else ''%2B'') @
     zfill 2 (str_nat (nat \<bar>utcoffset now\<bar> div 3600)) @
     zfill 2 (str_nat (nat \<bar>utcoffset now\<bar> mod 3600 div 60)) @
     (if nat \<bar>utcoffset now\<bar> mod 60 \<noteq> 0
      then zfill 2 (str_nat (nat \<bar>utcoffset now\<bar> mod 60)) else [])"
  unfolding formatted_date_def strftime_offset replace_date replace_offset by simp

lemmas str_eval = str_nat.simps digit_char_def zfill_def

text \<open>
  Claim C7, as the code has it. For every local time \<open>now\<close>, the \<^verbatim>\<open>date\<close> field is the
  date, a \<^verbatim>\<open>+\<close> (the form encoding of the space), the hour, \<^verbatim>\<open>%3A\<close> (the encoded colon), the
  minute, and the UTC offset with no colon, its sign \<^verbatim>\<open>-\<close> or \<^verbatim>\<open>%2B\<close> (the encoded plus):
  \<^verbatim>\<open>2026-10-12+14%3A30%2B0200\<close>. All numbers are zero-padded.
\<close>

theorem formatted_date_shape:
  "formatted_date now =
     zfill 4 (str_nat (year now)) @ ''-'' @ zfill 2 (str_nat (month now)) @ ''-'' @
     zfill 2 (str_nat (day now)) @ ''+'' @ zfill 2 (str_nat (hour now)) @ ''%3A'' @
     zfill 2 (str_nat (minute now)) @
     (if utcoffset now < 0 then ''-'' else ''%2B'') @
     zfill 2 (str_nat (nat \<bar>utcoffset now\<bar> div 3600)) @
     zfill 2 (str_nat (nat \<bar>utcoffset now\<bar> mod 3600 div 60)) @
     (if nat \<bar>utcoffset now\<bar> mod 60 \<noteq> 0
      then zfill 2 (str_nat (nat \<bar>utcoffset now\<bar> mod 60)) else [])"
  by (rule formatted_date_eq)

text \<open>The shape at a time west of Greenwich: the minus sign stays as it is.\<close>

theorem formatted_date_shape_witness:
  "formatted_date now_west = ''2026-01-05+09%3A05-0430''"
  using formatted_date_shape [of now_west] by (simp add: now_west_def str_eval)

text \<open>
  Claim C7 as the spec words it (\<^verbatim>\<open>YYYY-MM-DD%20HH:MM\<close> and the offset) fails: at 14:30 on
  12 October 2026, two hours east of UTC, the code sends \<^verbatim>\<open>2026-10-12+14%3A30%2B0200\<close> and
  not \<^verbatim>\<open>2026-10-12%2014:30%2B0200\<close>.
\<close>

theorem formatted_date_counterexample:
  "formatted_date now_example = ''2026-10-12+14%3A30%2B0200'' \<and>
   formatted_date now_example \<noteq> ''2026-10-12%2014:30%2B0200''"
  using formatted_date_eq [of now_example] by (simp add: now_example_def str_eval)

section \<open>The departure filter\<close>






section \<open>The unique id\<close>

lemma generate_unique_id_eq:
  "generate_unique_id K sid lines dir =
     sid @ (if lines = [] then [] else ''_'' @ str_join ''-'' (sort lines)) @
     (if dir = DIRECTION_ALL K then [] else ''_'' @ dir)"
  by (simp add: generate_unique_id_def)

lemma sort_mset_cong: "mset xs = mset ys \<Longrightarrow> sort xs = sort (ys :: string list)"
  by (rule properties_for_sort) simp_all

lemma generate_unique_id_perm:
  assumes "mset lines' = mset lines"
  shows "generate_unique_id K sid lines' dir = generate_unique_id K sid lines dir"
proof -
  have "sort lines' = sort lines"
    using assms by (rule sort_mset_cong)
  moreover have "lines' = [] \<longleftrightarrow> lines = []"
    using assms by (metis mset_zero_iff)
  ultimately show ?thesis
    by (simp add: generate_unique_id_eq)
qed

text \<open>
  Claim C8. For every stop id, list of filter lines and direction, the unique id of
  \<^verbatim>\<open>helpers.py\<close> is the stop id, then (when there are filter lines) \<^verbatim>\<open>_\<close> and the lines
  sorted ascending and joined by hyphens, then \<^verbatim>\<open>_\<close> and the direction exactly when the
  direction is not ALL. It is the same for every permutation of the filter lines. The
  two-argument function of \<^verbatim>\<open>config_flow.py\<close> gives the id of direction ALL.
\<close>

theorem generate_unique_id_spec:
  "generate_unique_id K sid lines dir =
     sid @ (if lines = [] then [] else ''_'' @ str_join ''-'' (sort lines)) @
     (if dir = DIRECTION_ALL K then [] else ''_'' @ dir) \<and>
   (\<forall>lines'. mset lines' = mset lines \<longrightarrow>
      generate_unique_id K sid lines' dir = generate_unique_id K sid lines dir) \<and>
   config_flow_generate_unique_id sid lines = generate_unique_id K sid lines (DIRECTION_ALL K)"
proof (intro conjI allI impI)
  show "generate_unique_id K sid lines dir =
     sid @ (if lines = [] then [] else ''_'' @ str_join ''-'' (sort lines)) @
     (if dir = DIRECTION_ALL K then [] else ''_'' @ dir)"
    by (rule generate_unique_id_eq)
next
  fix lines'
  assume "mset lines' = mset lines"
  then show "generate_unique_id K sid lines' dir = generate_unique_id K sid lines dir"
    by (rule generate_unique_id_perm)
next
  show "config_flow_generate_unique_id sid lines =
    generate_unique_id K sid lines (DIRECTION_ALL K)"
    by (simp add: config_flow_generate_unique_id_def generate_unique_id_eq)
qed

text \<open>Stop 123 with the lines 3, 21 and 100 in two orders, direction \<^verbatim>\<open>here\<close>; and with
  no lines, direction ALL.\<close>

theorem generate_unique_id_spec_witness:
  "generate_unique_id K_example ''123'' [''3'', ''21'', ''100''] ''here'' =
     ''123_100-21-3_here'' \<and>
   generate_unique_id K_example ''123'' [''21'', ''100'', ''3''] ''here'' =
     generate_unique_id K_example ''123'' [''3'', ''21'', ''100''] ''here'' \<and>
   generate_unique_id K_example ''123'' [] ''all'' = ''123''"
proof -
  note t = generate_unique_id_spec [of K_example "''123''" "[''3'', ''21'', ''100'']" "''here''"]
  have a: "generate_unique_id K_example ''123'' [''3'', ''21'', ''100''] ''here'' =
      ''123_100-21-3_here''"
    using t [THEN conjunct1] by (simp add: K_example_def)
  have "mset [''21'', ''100'', ''3''] = mset [''3'', ''21'', ''100'']"
    by simp
  with t have b: "generate_unique_id K_example ''123'' [''21'', ''100'', ''3''] ''here'' =
      generate_unique_id K_example ''123'' [''3'', ''21'', ''100''] ''here''"
    by blast
  have c: "generate_unique_id K_example ''123'' [] ''all'' = ''123''"
    using generate_unique_id_spec [of K_example "''123''" "[]" "''all''", THEN conjunct1]
    by (simp add: K_example_def)
  from a b c show ?thesis by blast
qed

section \<open>The headline\<close>









section \<open>The detail entries\<close>







section \<open>The list of detail entries\<close>







section \<open>Planned and calculated times of an entry\<close>






section \<open>Departures with missing fields\<close>








section \<open>The stop info\<close>

lemma fetch_stop_info_eq:
  "fetch_stop_info c r =
     Inr (case r of
            Raise_ClientError \<Rightarrow> c
          | Response st response_json \<Rightarrow>
             (case stops response_json of
                None \<Rightarrow> c
              | Some [] \<Rightarrow> c
              | Some (stop_data # rest) \<Rightarrow>
                 if st = 200 \<and> status response_json = Some ''ok''
                 then c\<lparr>stop_name := stopName stop_data,
                        stopping_lines :=
                          (case ezLines stop_data of None \<Rightarrow> [] | Some ls \<Rightarrow> ls)\<rparr>
                 else c))"
  by (simp add: fetch_stop_info_def fetch_stop_info_try_def truthy_list_def
      split: response.split option.split list.split)




section \<open>The departures and the refresh\<close>

lemma data_async_update_data:
  "data (snd (async_update_data c now r_stop r_dep)) = data c"
  by (auto simp: async_update_data_def fetch_stop_info_eq fetch_departures_def
      split: response.split option.split list.split)

lemma async_refresh_failed:
  assumes "fst (async_update_data c now r_stop r_dep) = Inl err"
  shows "data (async_refresh c now r_stop r_dep) = data c"
    and "\<not> last_update_success (async_refresh c now r_stop r_dep)"
  using assms data_async_update_data [of c now r_stop r_dep]
  by (auto simp: async_refresh_def split: prod.splits sum.splits)

lemma async_update_data_missing_field:
  "fst (async_update_data c now r_stop (Response 200 \<lparr>departures = None\<rparr>)) = Inl TypeError"
  by (simp add: async_update_data_def fetch_stop_info_eq fetch_departures_def)

text \<open>
  Claim C1, on the code. A response with status 200 whose body has no \<^verbatim>\<open>departures\<close>
  makes \<^verbatim>\<open>_fetch_departures\<close> raise \<^verbatim>\<open>TypeError\<close> (from \<^verbatim>\<open>return {[]}\<close>), which
  \<^verbatim>\<open>_async_update_data\<close> lets through as it is, and the published data stay as they
  were; a status other than 200, such as 404, raises \<^verbatim>\<open>UpdateFailed\<close>. The failure the
  claim asks for is a deliberate one of its own kind; the code fails by accident.
\<close>

theorem fetch_departures_missing_field:
  "fetch_departures c now (Response 200 \<lparr>departures = None\<rparr>) = Inl TypeError \<and>
   fst (async_update_data c now r_stop (Response 200 \<lparr>departures = None\<rparr>)) = Inl TypeError \<and>
   data (async_refresh c now r_stop (Response 200 \<lparr>departures = None\<rparr>)) = data c \<and>
   fetch_departures c now (Response 404 response_json) = Inl UpdateFailed"
  using async_update_data_missing_field [of c now r_stop]
    async_refresh_failed(1) [OF async_update_data_missing_field, of c now r_stop]
  by (simp add: fetch_departures_def)

theorem fetch_departures_missing_field_witness:
  "fetch_departures (coordinator_example three_departures) now_example
     (Response 200 \<lparr>departures = None\<rparr>) = Inl TypeError \<and>
   data (async_refresh (coordinator_example three_departures) now_example
     (Response 200 stop_info_own) (Response 200 \<lparr>departures = None\<rparr>)) =
   data (coordinator_example three_departures)"
  using fetch_departures_missing_field [of "coordinator_example three_departures" now_example
      "Response 200 stop_info_own"]
  by simp

end
